theory Spec2Isabelle
  imports Main "HOL-Library.Multiset"
begin

section \<open>Finance tracker: a shallow embedding of backend/main.py\<close>

text \<open>
  The module is a FastAPI application over an SQLAlchemy session. The embedding keeps
  every function of the module that decides a response, and makes explicit what the
  module leaves to its collaborators:
  \<^item> the relational store is a record of two tables (lists of rows, in insertion order);
    a handler takes the store and returns the store it leaves behind;
  \<^item> \<open>HTTPException\<close> is a value: a handler returns \<open>HTTPException + response\<close>. An
    exception of a library that no handler catches reaches the server, which answers 500 and
    commits nothing; the model writes that answer as the value \<open>internal_server_error\<close>;
  \<^item> the clock is an argument (\<open>now\<close>, microseconds of UTC since the epoch), read once per
    request;
  \<^item> the libraries the module calls (python-jose, passlib, the store's ordering of its
    date column, Python's float arithmetic, the csv writer) are the fields of an
    environment record \<open>env\<close>; nothing is assumed of them but what a theorem states.
    The one exception is the expiry check of \<open>jwt.decode\<close>, written out in \<open>jwt_decode\<close>
    after the signature check of the environment;
  \<^item> the store is the SQLite file the module configures: its integers are signed 64-bit,
    its date column keeps the fields of a date and no offset, and \<open>db.refresh\<close> gives the
    handler the row as the store holds it.
  The model is of the handlers: what each returns or raises. How the framework parses a
  request before the call and renders the returned value after it is outside.
  Strings are \<open>char list\<close>; a header value reaches the handler decoded as Latin-1, so one
  \<open>char\<close> is one character of the header. The strings of a request body are taken from
  the same characters.
\<close>

subsection \<open>Configuration\<close>

definition ALGORITHM :: string where
  "ALGORITHM = ''HS256''"

definition ACCESS_TOKEN_EXPIRE_MINUTES :: int where
  "ACCESS_TOKEN_EXPIRE_MINUTES = 60 * 24 * 7"

subsection \<open>Dates\<close>

text \<open>
  A Python \<open>datetime\<close> is its wall-clock reading (the microseconds from 1970-01-01T00:00:00
  to the date and time its fields show) and its \<open>tzinfo\<close>: \<open>None\<close> for a naive
  value, otherwise a fixed offset from UTC in microseconds. A \<open>timedelta\<close> is a number of
  microseconds.
\<close>

record datetime =
  wall :: int
  tzinfo :: "int option"

definition timedelta :: "int \<Rightarrow> int \<Rightarrow> int" where
  \<comment> \<open>\<open>timedelta(hours=h, minutes=m)\<close>\<close>
  "timedelta h m = ((h * 60 + m) * 60) * 1000000"

definition timezone :: "int \<Rightarrow> int" where
  \<comment> \<open>\<open>timezone(delta)\<close>: the fixed-offset zone with that offset\<close>
  "timezone delta = delta"

definition IST :: int where
  "IST = timezone (timedelta 5 30)"

definition datetime_now :: "int \<Rightarrow> int \<Rightarrow> datetime" where
  \<comment> \<open>\<open>datetime.now(tz)\<close> when the UTC clock reads \<open>now\<close>\<close>
  "datetime_now now tz = \<lparr>wall = now + tz, tzinfo = Some tz\<rparr>"

definition replace_tzinfo :: "datetime \<Rightarrow> int \<Rightarrow> datetime" where
  \<comment> \<open>\<open>d.replace(tzinfo=tz)\<close>: the same fields, the zone attached\<close>
  "replace_tzinfo d tz = d\<lparr>tzinfo := Some tz\<rparr>"

definition timegm_utc :: "int \<Rightarrow> int" where
  \<comment> \<open>\<open>timegm(d.utctimetuple())\<close> of a naive UTC reading: whole seconds, the fraction dropped\<close>
  "timegm_utc t = t div 1000000"

subsection \<open>Tables and schemas\<close>

text \<open>
  Field names carry the table's prefix (\<open>u_\<close>, \<open>t_\<close>), the request's (\<open>uc_\<close>, \<open>tc_\<close>) or the
  response's (\<open>tr_\<close>, \<open>s_\<close>), since record fields share one name space. The type
  \<open>'f\<close> stands for Python's \<open>float\<close>.
\<close>

record UserDB =
  u_id :: int
  u_username :: string
  u_hashed_password :: string

record 'f TransactionDB =
  t_id :: int
  t_title :: string
  t_amount :: 'f
  t_type :: string
  t_category :: "string option"
  t_date :: datetime
  t_owner_id :: int

record 'f db =
  users :: "UserDB list"
  transactions :: "'f TransactionDB list"

record UserCreate =
  uc_username :: string
  uc_password :: string

record TokenResponse =
  access_token :: string
  token_type :: string

record 'f TransactionCreate =
  tc_title :: string
  tc_amount :: 'f
  tc_type :: string
  tc_category :: "string option"
  tc_date :: "datetime option"

record 'f TransactionResponse =
  tr_id :: int
  tr_title :: string
  tr_amount :: 'f
  tr_type :: string
  tr_category :: "string option"
  tr_date :: datetime

record 'f SummaryResponse =
  total_income :: 'f
  total_expense :: 'f
  net_balance :: 'f

record HTTPException =
  status_code :: nat
  detail :: string

subsection \<open>The libraries\<close>

text \<open>The claims of a token: the subject and the expiry (an integer date, in seconds).\<close>

record claims =
  sub :: "string option"
  exp :: "int option"

datatype 'f csv_cell = CInt int | CStr string | CFloat 'f

record 'f env =
  SECRET_KEY :: string
  jws_sign :: "claims \<Rightarrow> string \<Rightarrow> string \<Rightarrow> string"
    \<comment> \<open>python-jose: serialise and sign claims under a key and an algorithm\<close>
  jws_verify :: "string \<Rightarrow> string \<Rightarrow> string list \<Rightarrow> claims option"
    \<comment> \<open>python-jose: check the signature and parse the claims, \<open>None\<close> where it raises\<close>
  pwd_hash :: "string \<Rightarrow> string \<Rightarrow> string option"
    \<comment> \<open>passlib: hash a password under a fresh salt, \<open>None\<close> where it raises\<close>
  pwd_verify :: "string \<Rightarrow> string \<Rightarrow> bool option"
    \<comment> \<open>passlib: check a password against a stored hash, \<open>None\<close> where it raises\<close>
  store_float :: "'f \<Rightarrow> 'f option"
    \<comment> \<open>the store's \<open>Float\<close> column declared \<open>nullable=False\<close>: the value read back after a
       float is written, \<open>None\<close> where the write is refused\<close>
  date_key :: "datetime \<Rightarrow> int"
    \<comment> \<open>the store's order on its date column\<close>
  py_sum :: "'f list \<Rightarrow> 'f"
  py_round :: "'f \<Rightarrow> int \<Rightarrow> 'f"
  py_sub :: "'f \<Rightarrow> 'f \<Rightarrow> 'f"
  isoformat :: "datetime \<Rightarrow> string"
  csv_writerow :: "'f csv_cell list \<Rightarrow> string"
    \<comment> \<open>the text \<open>csv.writer.writerow\<close> appends to its buffer for one row\<close>

subsection \<open>Strings\<close>

definition py_isspace :: "char \<Rightarrow> bool" where
  \<comment> \<open>the whitespace of \<open>str.split()\<close> among the first 256 code points\<close>
  "py_isspace c = (of_char c \<in> set [9, 10, 11, 12, 13, 28, 29, 30, 31, 32, 133, 160 :: nat])"

fun split_ws :: "string \<Rightarrow> string \<Rightarrow> string list" where
  "split_ws [] w = (if w = [] then [] else [w])"
| "split_ws (c # cs) w =
     (if py_isspace c then (if w = [] then split_ws cs [] else w # split_ws cs [])
      else split_ws cs (w @ [c]))"

definition py_split :: "string \<Rightarrow> string list" where
  \<comment> \<open>\<open>s.split()\<close>: the maximal runs of non-whitespace, in order\<close>
  "py_split s = split_ws s []"

definition lower_char :: "char \<Rightarrow> char" where
  "lower_char c =
     (let n = (of_char c :: nat) in
      if (65 \<le> n \<and> n \<le> 90) \<or> (192 \<le> n \<and> n \<le> 222 \<and> n \<noteq> 215) then char_of (n + 32) else c)"

definition py_lower :: "string \<Rightarrow> string" where
  "py_lower s = map lower_char s"

fun digits :: "nat \<Rightarrow> string" where
  "digits n = (if n < 10 then [char_of (48 + n)] else digits (n div 10) @ [char_of (48 + n mod 10)])"

definition py_str_int :: "int \<Rightarrow> string" where
  \<comment> \<open>\<open>str(i)\<close> of an integer\<close>
  "py_str_int i = (if i < 0 then CHR ''-'' # digits (nat (- i)) else digits (nat i))"

subsection \<open>Security utilities\<close>

definition verify_password :: "'f env \<Rightarrow> string \<Rightarrow> string \<Rightarrow> bool option" where
  "verify_password E plain hashed = pwd_verify E plain hashed"

definition get_password_hash :: "'f env \<Rightarrow> string \<Rightarrow> string \<Rightarrow> string option" where
  "get_password_hash E salt password = pwd_hash E password salt"

definition create_access_token :: "'f env \<Rightarrow> int \<Rightarrow> claims \<Rightarrow> int option \<Rightarrow> string" where
  \<comment> \<open>\<open>expires_delta or timedelta(...)\<close>: a zero delta is falsy and gives the default; the
     library's \<open>encode\<close> turns the \<open>exp\<close> datetime into an integer date before signing\<close>
  "create_access_token E now data expires_delta =
     (let to_encode = data;
          expire = now + (case expires_delta of
                            None \<Rightarrow> timedelta 0 ACCESS_TOKEN_EXPIRE_MINUTES
                          | Some d \<Rightarrow> if d = 0 then timedelta 0 ACCESS_TOKEN_EXPIRE_MINUTES else d);
          to_encode = to_encode\<lparr>exp := Some (timegm_utc expire)\<rparr>
      in jws_sign E to_encode (SECRET_KEY E) ALGORITHM)"

datatype JWTError = JWSError | ExpiredSignatureError

definition jwt_decode :: "'f env \<Rightarrow> int \<Rightarrow> string \<Rightarrow> string \<Rightarrow> string list \<Rightarrow> JWTError + claims" where
  \<comment> \<open>Modelled from the spec: python-jose's \<open>jwt.decode\<close> is not part of the module. Section
     4.2: it fails on signature mismatch, on a malformed token, or on an expiry in the past.
     The expiry is compared in whole seconds with the UTC clock.\<close>
  "jwt_decode E now token key algorithms =
     (case jws_verify E token key algorithms of
        None \<Rightarrow> Inl JWSError
      | Some payload \<Rightarrow>
          (case exp payload of
             None \<Rightarrow> Inr payload
           | Some e \<Rightarrow> if e < timegm_utc now then Inl ExpiredSignatureError else Inr payload))"

subsection \<open>Authentication\<close>

definition credentials_exception :: HTTPException where
  "credentials_exception = \<lparr>status_code = 401, detail = ''Could not validate credentials''\<rparr>"

definition get_current_user_from_token ::
  "'f env \<Rightarrow> int \<Rightarrow> string \<Rightarrow> 'f db \<Rightarrow> HTTPException + UserDB" where
  "get_current_user_from_token E now token d =
     (case jwt_decode E now token (SECRET_KEY E) [ALGORITHM] of
        Inl _ \<Rightarrow> Inl credentials_exception
      | Inr payload \<Rightarrow>
          (case sub payload of
             None \<Rightarrow> Inl credentials_exception
           | Some username \<Rightarrow>
               if username = [] then Inl credentials_exception
               else (case find (\<lambda>u. u_username u = username) (users d) of
                       None \<Rightarrow> Inl credentials_exception
                     | Some user \<Rightarrow> Inr user)))"

definition require_user_from_header ::
  "'f env \<Rightarrow> int \<Rightarrow> string option \<Rightarrow> 'f db \<Rightarrow> HTTPException + UserDB" where
  "require_user_from_header E now authorization_header d =
     (case authorization_header of
        None \<Rightarrow> Inl \<lparr>status_code = 401, detail = ''Authorization header missing''\<rparr>
      | Some h \<Rightarrow>
          if h = [] then Inl \<lparr>status_code = 401, detail = ''Authorization header missing''\<rparr>
          else (let parts = py_split h in
                if length parts \<noteq> 2 \<or> py_lower (parts ! 0) \<noteq> ''bearer''
                then Inl \<lparr>status_code = 401, detail = ''Invalid auth header''\<rparr>
                else (let token = parts ! 1 in get_current_user_from_token E now token d)))"

subsection \<open>The store\<close>

definition internal_server_error :: HTTPException where
  \<comment> \<open>the server's answer to an exception that no handler catches\<close>
  "internal_server_error = \<lparr>status_code = 500, detail = ''Internal Server Error''\<rparr>"

definition sqlite_integer :: "int \<Rightarrow> bool" where
  \<comment> \<open>the integers the store can bind to a query: signed 64-bit. Binding any other raises
     \<open>OverflowError\<close>\<close>
  "sqlite_integer i \<longleftrightarrow> - (2 ^ 63) \<le> i \<and> i < 2 ^ 63"

definition sqlite_datetime :: "datetime \<Rightarrow> datetime" where
  \<comment> \<open>the date column: the store writes the fields of a date and no offset, so what is read
     back is naive, \<open>DateTime(timezone=True)\<close> notwithstanding\<close>
  "sqlite_datetime dt = \<lparr>wall = wall dt, tzinfo = None\<rparr>"

definition next_id :: "int list \<Rightarrow> int" where
  \<comment> \<open>the key the store gives a new row: 1 in an empty table, else one more than the
     largest key in use (the store's rule while that key is below \<open>2 ^ 63 - 1\<close>)\<close>
  "next_id ids = (case ids of [] \<Rightarrow> 1 | i # rest \<Rightarrow> fold max rest i + 1)"

definition order_by_date_desc :: "'f env \<Rightarrow> 'f TransactionDB list \<Rightarrow> 'f TransactionDB list" where
  \<comment> \<open>\<open>.order_by(TransactionDB.date.desc())\<close>: the store's order on the date column,
     largest first; rows with equal dates stay in table order\<close>
  "order_by_date_desc E rows = sort_key (\<lambda>r. - date_key E (t_date r)) rows"

definition add_commit_refresh ::
  "'f env \<Rightarrow> 'f TransactionDB \<Rightarrow> 'f db \<Rightarrow> ('f TransactionDB \<times> 'f db) option" where
  \<comment> \<open>\<open>db.add(db_tx); db.commit(); db.refresh(db_tx)\<close>: the row as the store holds it and the
     store with that row, \<open>None\<close> where the commit raises and nothing is stored\<close>
  "add_commit_refresh E db_tx d =
     (case store_float E (t_amount db_tx) of
        None \<Rightarrow> None
      | Some a \<Rightarrow>
          (let row = db_tx\<lparr>t_amount := a, t_date := sqlite_datetime (t_date db_tx)\<rparr>
           in Some (row, d\<lparr>transactions := transactions d @ [row]\<rparr>)))"

definition to_response :: "'f TransactionDB \<Rightarrow> 'f TransactionResponse" where
  \<comment> \<open>\<open>response_model=TransactionResponse\<close> with \<open>orm_mode\<close>: the row without its owner\<close>
  "to_response r =
     \<lparr>tr_id = t_id r, tr_title = t_title r, tr_amount = t_amount r, tr_type = t_type r,
      tr_category = t_category r, tr_date = t_date r\<rparr>"

subsection \<open>Routes\<close>

record RegisterResponse =
  rr_id :: int
  rr_username :: string

record DeleteResponse =
  dr_status :: string
  dr_message :: string

record StreamingResponse =
  sr_body :: "string list"
  sr_media_type :: string
  sr_headers :: "(string \<times> string) list"

definition register ::
  "'f env \<Rightarrow> string \<Rightarrow> UserCreate \<Rightarrow> 'f db \<Rightarrow> (HTTPException + RegisterResponse) \<times> 'f db" where
  "register E salt user d =
     (case find (\<lambda>u. u_username u = uc_username user) (users d) of
        Some existing \<Rightarrow> (Inl \<lparr>status_code = 400, detail = ''Username already exists''\<rparr>, d)
      | None \<Rightarrow>
          (case get_password_hash E salt (uc_password user) of
             None \<Rightarrow> (Inl internal_server_error, d)
           | Some hashed \<Rightarrow>
               (let db_user = \<lparr>u_id = next_id (map u_id (users d)),
                               u_username = uc_username user, u_hashed_password = hashed\<rparr>
                in (Inr \<lparr>rr_id = u_id db_user, rr_username = u_username db_user\<rparr>,
                    d\<lparr>users := users d @ [db_user]\<rparr>))))"

definition login ::
  "'f env \<Rightarrow> int \<Rightarrow> UserCreate \<Rightarrow> 'f db \<Rightarrow> (HTTPException + TokenResponse) \<times> 'f db" where
  "login E now payload d =
     (case find (\<lambda>u. u_username u = uc_username payload) (users d) of
        None \<Rightarrow> (Inl \<lparr>status_code = 401, detail = ''Invalid credentials''\<rparr>, d)
      | Some user \<Rightarrow>
          (case verify_password E (uc_password payload) (u_hashed_password user) of
             None \<Rightarrow> (Inl internal_server_error, d)
           | Some verified \<Rightarrow>
               if \<not> verified
               then (Inl \<lparr>status_code = 401, detail = ''Invalid credentials''\<rparr>, d)
               else (let token = create_access_token E now
                                   \<lparr>sub = Some (u_username user), exp = None\<rparr> None
                     in (Inr \<lparr>access_token = token, token_type = ''bearer''\<rparr>, d))))"

definition add_transaction_protected ::
  "'f env \<Rightarrow> int \<Rightarrow> 'f TransactionCreate \<Rightarrow> string option \<Rightarrow> 'f db
     \<Rightarrow> (HTTPException + 'f TransactionResponse) \<times> 'f db" where
  "add_transaction_protected E now tx authorization d =
     (case require_user_from_header E now authorization d of
        Inl e \<Rightarrow> (Inl e, d)
      | Inr user \<Rightarrow>
          (let tx_date = (case tc_date tx of Some dt \<Rightarrow> dt | None \<Rightarrow> datetime_now now IST);
               tx_date = (case tc_date tx of
                            Some dt \<Rightarrow> if tzinfo dt = None then replace_tzinfo dt IST else tx_date
                          | None \<Rightarrow> tx_date);
               db_tx = \<lparr>t_id = next_id (map t_id (transactions d)),
                        t_title = tc_title tx, t_amount = tc_amount tx, t_type = tc_type tx,
                        t_category = tc_category tx, t_date = tx_date, t_owner_id = u_id user\<rparr>
           in (case add_commit_refresh E db_tx d of
                 None \<Rightarrow> (Inl internal_server_error, d)
               | Some (row, d') \<Rightarrow> (Inr (to_response row), d'))))"

definition get_transactions_protected ::
  "'f env \<Rightarrow> int \<Rightarrow> string option \<Rightarrow> 'f db
     \<Rightarrow> (HTTPException + 'f TransactionResponse list) \<times> 'f db" where
  "get_transactions_protected E now authorization d =
     (case require_user_from_header E now authorization d of
        Inl e \<Rightarrow> (Inl e, d)
      | Inr user \<Rightarrow>
          (let rows = order_by_date_desc E
                        (filter (\<lambda>t. t_owner_id t = u_id user) (transactions d))
           in (Inr (map to_response rows), d)))"

definition delete_transaction_protected ::
  "'f env \<Rightarrow> int \<Rightarrow> int \<Rightarrow> string option \<Rightarrow> 'f db
     \<Rightarrow> (HTTPException + DeleteResponse) \<times> 'f db" where
  "delete_transaction_protected E now tx_id authorization d =
     (case require_user_from_header E now authorization d of
        Inl e \<Rightarrow> (Inl e, d)
      | Inr user \<Rightarrow>
          if \<not> sqlite_integer tx_id then (Inl internal_server_error, d)
          else
          (case find (\<lambda>t. t_id t = tx_id \<and> t_owner_id t = u_id user) (transactions d) of
             None \<Rightarrow> (Inl \<lparr>status_code = 404, detail = ''Transaction not found''\<rparr>, d)
           | Some tx \<Rightarrow>
               (Inr \<lparr>dr_status = ''success'',
                     dr_message = ''Transaction '' @ py_str_int tx_id @ '' deleted''\<rparr>,
                d\<lparr>transactions := filter (\<lambda>t. t_id t \<noteq> t_id tx) (transactions d)\<rparr>)))"

definition summary_protected ::
  "'f env \<Rightarrow> int \<Rightarrow> string option \<Rightarrow> 'f db \<Rightarrow> (HTTPException + 'f SummaryResponse) \<times> 'f db" where
  "summary_protected E now authorization d =
     (case require_user_from_header E now authorization d of
        Inl e \<Rightarrow> (Inl e, d)
      | Inr user \<Rightarrow>
          (let txs = filter (\<lambda>t. t_owner_id t = u_id user) (transactions d);
               total_income = py_round E (py_sum E (map t_amount (filter (\<lambda>t. t_type t = ''income'') txs))) 2;
               total_expense = py_round E (py_sum E (map t_amount (filter (\<lambda>t. t_type t = ''expense'') txs))) 2
           in (Inr \<lparr>total_income = total_income, total_expense = total_expense,
                    net_balance = py_round E (py_sub E total_income total_expense) 2\<rparr>, d)))"

definition py_or_empty :: "string option \<Rightarrow> string" where
  \<comment> \<open>\<open>r.category or ""\<close>\<close>
  "py_or_empty c = (case c of None \<Rightarrow> [] | Some s \<Rightarrow> if s = [] then [] else s)"

definition csv_header :: "'f csv_cell list" where
  "csv_header = [CStr ''id'', CStr ''title'', CStr ''amount'', CStr ''type'', CStr ''category'', CStr ''date'']"

definition csv_row :: "'f env \<Rightarrow> 'f TransactionDB \<Rightarrow> 'f csv_cell list" where
  "csv_row E r =
     [CInt (t_id r), CStr (t_title r), CFloat (t_amount r), CStr (t_type r),
      CStr (py_or_empty (t_category r)), CStr (isoformat E (t_date r))]"

definition iter_csv :: "'f env \<Rightarrow> 'f TransactionDB list \<Rightarrow> string list" where
  \<comment> \<open>the chunks the generator yields: the buffer is emptied after each one\<close>
  "iter_csv E rows = csv_writerow E csv_header # map (\<lambda>r. csv_writerow E (csv_row E r)) rows"

definition export_csv_protected ::
  "'f env \<Rightarrow> int \<Rightarrow> string option \<Rightarrow> 'f db \<Rightarrow> (HTTPException + StreamingResponse) \<times> 'f db" where
  "export_csv_protected E now authorization d =
     (case require_user_from_header E now authorization d of
        Inl e \<Rightarrow> (Inl e, d)
      | Inr user \<Rightarrow>
          (let rows = order_by_date_desc E
                        (filter (\<lambda>t. t_owner_id t = u_id user) (transactions d))
           in (Inr \<lparr>sr_body = iter_csv E rows, sr_media_type = ''text/csv'',
                    sr_headers = [(''Content-Disposition'', ''attachment; filename=transactions.csv'')]\<rparr>,
               d)))"

subsection \<open>What a response is, for the statements below\<close>

definition rejected_everywhere ::
  "'f env \<Rightarrow> int \<Rightarrow> 'f TransactionCreate \<Rightarrow> int \<Rightarrow> string option \<Rightarrow> 'f db
     \<Rightarrow> HTTPException \<Rightarrow> bool" where
  \<comment> \<open>each of the five protected routes, the add route with body \<open>tx\<close> and the delete route
     with path parameter \<open>tx_id\<close>, raises \<open>e\<close> and leaves the store as it found it\<close>
  "rejected_everywhere E now tx tx_id h d e \<longleftrightarrow>
     add_transaction_protected E now tx h d = (Inl e, d) \<and>
     get_transactions_protected E now h d = (Inl e, d) \<and>
     delete_transaction_protected E now tx_id h d = (Inl e, d) \<and>
     summary_protected E now h d = (Inl e, d) \<and>
     export_csv_protected E now h d = (Inl e, d)"

definition is_401 :: "HTTPException + 'a \<Rightarrow> bool" where
  "is_401 r = (case r of Inl e \<Rightarrow> status_code e = 401 | Inr _ \<Rightarrow> False)"

definition served_as ::
  "'f env \<Rightarrow> int \<Rightarrow> 'f TransactionCreate \<Rightarrow> int \<Rightarrow> string option \<Rightarrow> 'f db
     \<Rightarrow> UserDB \<Rightarrow> bool" where
  \<comment> \<open>the request is admitted as user \<open>u\<close>, and none of the five protected routes answers 401\<close>
  "served_as E now tx tx_id h d u \<longleftrightarrow>
     require_user_from_header E now h d = Inr u \<and>
     \<not> is_401 (fst (add_transaction_protected E now tx h d)) \<and>
     \<not> is_401 (fst (get_transactions_protected E now h d)) \<and>
     \<not> is_401 (fst (delete_transaction_protected E now tx_id h d)) \<and>
     \<not> is_401 (fst (summary_protected E now h d)) \<and>
     \<not> is_401 (fst (export_csv_protected E now h d))"

subsection \<open>A concrete instance\<close>

text \<open>
  One environment and one store, for evaluating the routes. The amounts are whole numbers,
  on which float addition, subtraction and rounding to two places are exact and which the
  store gives back as written. The signing library is a finite table of the tokens it has
  issued. A stored hash is the salt, a separator and the password, and the password library
  raises on a password with a NUL byte, as bcrypt does. The date column is ordered by the
  wall-clock reading it holds.
\<close>

definition demo_tokens :: "(string \<times> claims) list" where
  "demo_tokens =
     [(''tok-alice'', \<lparr>sub = Some ''alice'', exp = Some 604800\<rparr>),
      (''tok-carol'', \<lparr>sub = Some ''carol'', exp = Some 604860\<rparr>),
      (''tok-old'', \<lparr>sub = Some ''alice'', exp = Some 10\<rparr>),
      (''tok-nosub'', \<lparr>sub = None, exp = Some 604800\<rparr>),
      (''tok-ghost'', \<lparr>sub = Some ''ghost'', exp = Some 604800\<rparr>),
      (''tok-anon'', \<lparr>sub = Some [], exp = Some 604800\<rparr>)]"

definition demo_cell :: "int csv_cell \<Rightarrow> string" where
  "demo_cell c = (case c of CInt i \<Rightarrow> py_str_int i | CStr s \<Rightarrow> s | CFloat x \<Rightarrow> py_str_int x @ ''.0'')"

definition demo_writerow :: "int csv_cell list \<Rightarrow> string" where
  "demo_writerow cells =
     (case cells of [] \<Rightarrow> [] | c # cs \<Rightarrow> demo_cell c @ concat (map (\<lambda>x. '','' @ demo_cell x) cs))
     @ [CHR 0x0D, CHR 0x0A]"

definition demo_env :: "int env" where
  "demo_env =
     \<lparr>SECRET_KEY = ''change_this_secret_for_prod'',
      jws_sign = (\<lambda>c key alg. case find (\<lambda>p. snd p = c) demo_tokens of
                                  Some p \<Rightarrow> fst p | None \<Rightarrow> ''tok-unknown''),
      jws_verify = (\<lambda>token key algs.
                      if key = ''change_this_secret_for_prod'' \<and> ''HS256'' \<in> set algs
                      then map_of demo_tokens token else None),
      pwd_hash = (\<lambda>password salt.
                    if CHR 0x00 \<in> set password then None else Some (salt @ ''$'' @ password)),
      pwd_verify = (\<lambda>plain hashed.
                      if CHR 0x00 \<in> set plain then None
                      else Some (dropWhile (\<lambda>c. c \<noteq> CHR ''$'') hashed = CHR ''$'' # plain)),
      store_float = (\<lambda>x. Some x),
      date_key = (\<lambda>dt. wall dt),
      py_sum = (\<lambda>xs. foldl (+) 0 xs),
      py_round = (\<lambda>x ndigits. x),
      py_sub = (\<lambda>x y. x - y),
      isoformat = (\<lambda>dt. py_str_int (wall dt) @
                          (case tzinfo dt of None \<Rightarrow> []
                           | Some off \<Rightarrow> ''+'' @ py_str_int (off div 60000000))),
      csv_writerow = demo_writerow\<rparr>"

definition demo_db :: "int db" where
  "demo_db =
     \<lparr>users =
        [\<lparr>u_id = 1, u_username = ''alice'', u_hashed_password = ''s1$wonderland''\<rparr>,
         \<lparr>u_id = 2, u_username = ''bob'', u_hashed_password = ''s2$builder''\<rparr>],
      transactions =
        [\<lparr>t_id = 1, t_title = ''salary'', t_amount = 100, t_type = ''income'',
          t_category = Some ''job'', t_date = \<lparr>wall = 1000, tzinfo = None\<rparr>, t_owner_id = 1\<rparr>,
         \<lparr>t_id = 2, t_title = ''rent'', t_amount = 30, t_type = ''expense'',
          t_category = None, t_date = \<lparr>wall = 3000, tzinfo = None\<rparr>, t_owner_id = 1\<rparr>,
         \<lparr>t_id = 3, t_title = ''gift'', t_amount = 7, t_type = ''income'',
          t_category = None, t_date = \<lparr>wall = 2500, tzinfo = None\<rparr>, t_owner_id = 2\<rparr>,
         \<lparr>t_id = 4, t_title = ''bonus'', t_amount = 5, t_type = ''income'',
          t_category = Some [], t_date = \<lparr>wall = 2000, tzinfo = None\<rparr>, t_owner_id = 1\<rparr>]\<rparr>"

definition demo_tx :: "int TransactionCreate" where
  "demo_tx = \<lparr>tc_title = ''coffee'', tc_amount = 4, tc_type = ''expense'',
              tc_category = None, tc_date = None\<rparr>"

definition demo_db_carol :: "int db" where
  "demo_db_carol = demo_db\<lparr>users := users demo_db @
     [\<lparr>u_id = 3, u_username = ''carol'', u_hashed_password = ''s3$pw''\<rparr>]\<rparr>"

definition demo_db_anon :: "int db" where
  "demo_db_anon = demo_db\<lparr>users := users demo_db @
     [\<lparr>u_id = 3, u_username = [], u_hashed_password = ''s3$pw''\<rparr>]\<rparr>"

definition amounts_of :: "'f db \<Rightarrow> int \<Rightarrow> string \<Rightarrow> 'f list" where
  \<comment> \<open>the amounts of the rows a user owns under one type, in table order\<close>
  "amounts_of d uid ty =
     map t_amount (filter (\<lambda>t. t_owner_id t = uid \<and> t_type t = ty) (transactions d))"

definition demo_tx_dated :: "int TransactionCreate" where
  \<comment> \<open>the naive date 2024-01-01T10:00:00\<close>
  "demo_tx_dated = \<lparr>tc_title = ''book'', tc_amount = 12, tc_type = ''expense'',
                    tc_category = Some ''fun'',
                    tc_date = Some \<lparr>wall = 1704103200000000, tzinfo = None\<rparr>\<rparr>"

definition demo_tx_negative :: "int TransactionCreate" where
  "demo_tx_negative = \<lparr>tc_title = ''refund'', tc_amount = - 5, tc_type = ''income'',
                       tc_category = None, tc_date = None\<rparr>"

section \<open>Properties\<close>

subsection \<open>Shared lemmas: how a request is admitted\<close>

declare digits.simps [simp del]

lemma header_rejected:
  assumes "h = None \<or> (\<exists>s. h = Some s \<and> (length (py_split s) \<noteq> 2 \<or> py_lower (py_split s ! 0) \<noteq> ''bearer''))"
  shows "require_user_from_header E now h d =
           Inl \<lparr>status_code = 401,
                detail = (if h = None \<or> h = Some [] then ''Authorization header missing''
                          else ''Invalid auth header'')\<rparr>"
  using assms
  by (auto simp: require_user_from_header_def Let_def py_split_def split: option.splits)

lemma rejected_everywhereI:
  "require_user_from_header E now h d = Inl e \<Longrightarrow> rejected_everywhere E now tx tx_id h d e"
  by (simp add: rejected_everywhere_def add_transaction_protected_def
      get_transactions_protected_def delete_transaction_protected_def summary_protected_def
      export_csv_protected_def)

lemma bearer_header:
  assumes "py_split s = [scheme, token]" and "py_lower scheme = ''bearer''"
  shows "require_user_from_header E now (Some s) d = get_current_user_from_token E now token d"
proof -
  have "s \<noteq> []" using assms(1) by (auto simp: py_split_def)
  then show ?thesis using assms by (simp add: require_user_from_header_def)
qed

lemma token_user_InrD:
  assumes "get_current_user_from_token E now token d = Inr u"
  shows "\<exists>c name. jwt_decode E now token (SECRET_KEY E) [ALGORITHM] = Inr c \<and> sub c = Some name \<and>
           name \<noteq> [] \<and> find (\<lambda>x. u_username x = name) (users d) = Some u"
  using assms
  by (auto simp: get_current_user_from_token_def split: sum.splits option.splits if_splits)

lemma require_user_InrD:
  assumes "require_user_from_header E now h d = Inr u"
  shows "\<exists>s scheme token c name. h = Some s \<and> py_split s = [scheme, token] \<and>
           py_lower scheme = ''bearer'' \<and>
           jwt_decode E now token (SECRET_KEY E) [ALGORITHM] = Inr c \<and> sub c = Some name \<and>
           name \<noteq> [] \<and> find (\<lambda>x. u_username x = name) (users d) = Some u"
proof -
  from assms obtain s where s: "h = Some s" "s \<noteq> []" "length (py_split s) = 2"
      "py_lower (py_split s ! 0) = ''bearer''"
      "get_current_user_from_token E now (py_split s ! 1) d = Inr u"
    by (auto simp: require_user_from_header_def Let_def split: option.splits if_splits)
  from s(3) obtain scheme token where parts: "py_split s = [scheme, token]"
    by (cases "py_split s"; cases "tl (py_split s)") auto
  with s token_user_InrD [OF s(5)] show ?thesis by auto
qed

lemma find_user_props:
  "find (\<lambda>x. u_username x = name) us = Some u \<Longrightarrow> u \<in> set us \<and> u_username u = name"
  by (auto simp: find_Some_iff)

lemma find_None_append:
  "find P xs = None \<Longrightarrow> find P (xs @ ys) = find P ys"
  by (induction xs) (auto split: if_splits)

subsection \<open>Malformed authorization headers\<close>

text \<open>
  C7. A protected route whose \<open>Authorization\<close> header is absent, or does not split into
  exactly two parts of which the first is \<open>bearer\<close> up to case, answers 401 with a detail
  message. The exception is fixed by the header alone: it is the same for every library
  environment, every clock and every store, so neither the token verifier nor the store
  was consulted, and the store is returned as it was received.
\<close>

theorem malformed_header_rejected:
  assumes "h = None \<or> (\<exists>s. h = Some s \<and>
             (length (py_split s) \<noteq> 2 \<or> py_lower (py_split s ! 0) \<noteq> ''bearer''))"
  shows "\<exists>e. status_code e = 401 \<and>
             detail e = (if h = None \<or> h = Some [] then ''Authorization header missing''
                         else ''Invalid auth header'') \<and>
             (\<forall>(E :: 'f env) now tx tx_id d. rejected_everywhere E now tx tx_id h d e)"
proof -
  let ?e = "\<lparr>status_code = 401,
             detail = (if h = None \<or> h = Some [] then ''Authorization header missing''
                       else ''Invalid auth header'')\<rparr>"
  have "rejected_everywhere E now tx tx_id h d ?e" for E :: "'f env" and now tx tx_id d
    by (rule rejected_everywhereI) (rule header_rejected [OF assms])
  then show ?thesis by (intro exI [of _ ?e]) simp
qed

lemma demo_split_token: "py_split ''Token abc'' = [''Token'', ''abc'']"
  by (simp add: py_split_def py_isspace_def)

theorem malformed_header_rejected_witness:
  "py_lower (py_split ''Token abc'' ! 0) \<noteq> ''bearer'' \<and>
   add_transaction_protected demo_env 0 demo_tx (Some ''Token abc'') demo_db
     = (Inl \<lparr>status_code = 401, detail = ''Invalid auth header''\<rparr>, demo_db) \<and>
   get_transactions_protected demo_env 0 (Some ''Token abc'') demo_db
     = (Inl \<lparr>status_code = 401, detail = ''Invalid auth header''\<rparr>, demo_db) \<and>
   delete_transaction_protected demo_env 0 2 (Some ''Token abc'') demo_db
     = (Inl \<lparr>status_code = 401, detail = ''Invalid auth header''\<rparr>, demo_db) \<and>
   summary_protected demo_env 0 (Some ''Token abc'') demo_db
     = (Inl \<lparr>status_code = 401, detail = ''Invalid auth header''\<rparr>, demo_db) \<and>
   export_csv_protected demo_env 0 (Some ''Token abc'') demo_db
     = (Inl \<lparr>status_code = 401, detail = ''Invalid auth header''\<rparr>, demo_db)"
proof -
  have bad: "py_lower (py_split ''Token abc'' ! 0) \<noteq> ''bearer''"
    by (simp add: demo_split_token py_lower_def lower_char_def)
  then have "Some ''Token abc'' = None \<or> (\<exists>s. Some ''Token abc'' = Some s \<and>
       (length (py_split s) \<noteq> 2 \<or> py_lower (py_split s ! 0) \<noteq> ''bearer''))"
    by simp
  from malformed_header_rejected [OF this, where 'f = int]
  obtain e where e: "status_code e = 401" "detail e = ''Invalid auth header''"
      "rejected_everywhere demo_env 0 demo_tx 2 (Some ''Token abc'') demo_db e"
    by auto
  from e(1,2) have "e = \<lparr>status_code = 401, detail = ''Invalid auth header''\<rparr>" by simp
  with e(3) bad show ?thesis by (simp add: rejected_everywhere_def)
qed

subsection \<open>Shared lemmas: the concrete instance\<close>

lemma demo_split_bearer:
  "py_split (''Bearer '' @ t) = ''Bearer'' # py_split t"
  by (simp add: py_split_def py_isspace_def)

lemma demo_lower_bearer: "py_lower ''Bearer'' = ''bearer''"
  by code_simp


lemma demo_decode_alice:
  "jwt_decode demo_env 0 ''tok-alice'' (SECRET_KEY demo_env) [ALGORITHM]
     = Inr \<lparr>sub = Some ''alice'', exp = Some 604800\<rparr>"
  by (simp add: jwt_decode_def demo_env_def demo_tokens_def ALGORITHM_def timegm_utc_def)


lemma demo_split_alice: "py_split ''Bearer tok-alice'' = [''Bearer'', ''tok-alice'']"
  by (simp add: py_split_def py_isspace_def)

lemma demo_auth_alice:
  "require_user_from_header demo_env 0 (Some ''Bearer tok-alice'') demo_db
     = Inr \<lparr>u_id = 1, u_username = ''alice'', u_hashed_password = ''s1$wonderland''\<rparr>"
  by (simp add: bearer_header [OF demo_split_alice demo_lower_bearer]
      get_current_user_from_token_def demo_decode_alice) (simp add: demo_db_def)

subsection \<open>The subject of a token\<close>



subsection \<open>Token expiry\<close>

lemma seven_days: "timegm_utc (t0 + timedelta 0 ACCESS_TOKEN_EXPIRE_MINUTES) = timegm_utc t0 + 7 * 24 * 60 * 60"
  by (simp add: timegm_utc_def timedelta_def ACCESS_TOKEN_EXPIRE_MINUTES_def)

lemma login_InrD:
  assumes "login E t0 p d = (Inr r, d')"
  shows "d' = d \<and> token_type r = ''bearer'' \<and>
         access_token r = create_access_token E t0 \<lparr>sub = Some (uc_username p), exp = None\<rparr> None \<and>
         (\<exists>u. find (\<lambda>x. u_username x = uc_username p) (users d) = Some u \<and>
              pwd_verify E (uc_password p) (u_hashed_password u) = Some True)"
  using assms
  by (auto simp: login_def Let_def verify_password_def find_Some_iff
      split: option.splits if_splits)

text \<open>
  C6. A token is issued with \<open>exp\<close> set to the issuing clock, in whole seconds, plus seven
  days; this holds of \<open>create_access_token\<close> with its default lifetime and of the token every
  successful login returns. A token whose signature verifies and whose \<open>exp\<close> is earlier than
  the clock is refused by every protected route with 401, the store untouched.
\<close>

theorem token_expiry:
  "create_access_token E t0 data None
     = jws_sign E (data\<lparr>exp := Some (timegm_utc t0 + 7 * 24 * 60 * 60)\<rparr>) (SECRET_KEY E) ALGORITHM \<and>
   (login E t0 p d0 = (Inr r, d1)
    \<longrightarrow> access_token r
          = jws_sign E \<lparr>sub = Some (uc_username p), exp = Some (timegm_utc t0 + 7 * 24 * 60 * 60)\<rparr>
              (SECRET_KEY E) ALGORITHM) \<and>
   (h = Some s \<and> py_split s = [scheme, token] \<and> py_lower scheme = ''bearer'' \<and>
    jws_verify E token (SECRET_KEY E) [ALGORITHM] = Some c \<and> exp c = Some e \<and> e < timegm_utc now
    \<longrightarrow> rejected_everywhere E now tx tx_id h d credentials_exception \<and>
        status_code credentials_exception = 401)"
proof (intro conjI impI)
  show issue: "create_access_token E t0 data None
     = jws_sign E (data\<lparr>exp := Some (timegm_utc t0 + 7 * 24 * 60 * 60)\<rparr>) (SECRET_KEY E) ALGORITHM"
    for data
    by (simp add: create_access_token_def Let_def seven_days)
  assume "login E t0 p d0 = (Inr r, d1)"
  from login_InrD [OF this] show "access_token r
          = jws_sign E \<lparr>sub = Some (uc_username p), exp = Some (timegm_utc t0 + 7 * 24 * 60 * 60)\<rparr>
              (SECRET_KEY E) ALGORITHM"
    by (simp add: issue)
next
  assume a: "h = Some s \<and> py_split s = [scheme, token] \<and> py_lower scheme = ''bearer'' \<and>
    jws_verify E token (SECRET_KEY E) [ALGORITHM] = Some c \<and> exp c = Some e \<and> e < timegm_utc now"
  then have "jwt_decode E now token (SECRET_KEY E) [ALGORITHM] = Inl ExpiredSignatureError"
    by (simp add: jwt_decode_def)
  then have "get_current_user_from_token E now token d = Inl credentials_exception"
    by (simp add: get_current_user_from_token_def)
  with a have "require_user_from_header E now h d = Inl credentials_exception"
    by (simp add: bearer_header)
  then show "rejected_everywhere E now tx tx_id h d credentials_exception"
    by (rule rejected_everywhereI)
next
  show "status_code credentials_exception = 401"
    by (simp add: credentials_exception_def)
qed

lemma demo_split_old: "py_split ''Bearer tok-old'' = [''Bearer'', ''tok-old'']"
  by (simp add: py_split_def py_isspace_def)

lemma demo_verify_old:
  "jws_verify demo_env ''tok-old'' (SECRET_KEY demo_env) [ALGORITHM] = Some \<lparr>sub = Some ''alice'', exp = Some 10\<rparr>"
  by (simp add: demo_env_def demo_tokens_def ALGORITHM_def)

lemma demo_login_alice:
  "login demo_env 0 \<lparr>uc_username = ''alice'', uc_password = ''wonderland''\<rparr> demo_db
     = (Inr \<lparr>access_token = ''tok-alice'', token_type = ''bearer''\<rparr>, demo_db)"
  by (simp add: login_def demo_db_def verify_password_def create_access_token_def Let_def
        demo_env_def demo_tokens_def timegm_utc_def timedelta_def ACCESS_TOKEN_EXPIRE_MINUTES_def)

theorem token_expiry_witness:
  "login demo_env 0 \<lparr>uc_username = ''alice'', uc_password = ''wonderland''\<rparr> demo_db
     = (Inr \<lparr>access_token = ''tok-alice'', token_type = ''bearer''\<rparr>, demo_db) \<and>
   ''tok-alice'' = jws_sign demo_env \<lparr>sub = Some ''alice'', exp = Some 604800\<rparr>
                     (SECRET_KEY demo_env) ALGORITHM \<and>
   jws_verify demo_env ''tok-old'' (SECRET_KEY demo_env) [ALGORITHM]
     = Some \<lparr>sub = Some ''alice'', exp = Some 10\<rparr> \<and>
   (10 :: int) < timegm_utc 11000000 \<and>
   get_transactions_protected demo_env 11000000 (Some ''Bearer tok-old'') demo_db
     = (Inl \<lparr>status_code = 401, detail = ''Could not validate credentials''\<rparr>, demo_db) \<and>
   delete_transaction_protected demo_env 11000000 1 (Some ''Bearer tok-old'') demo_db
     = (Inl \<lparr>status_code = 401, detail = ''Could not validate credentials''\<rparr>, demo_db)"
proof -
  have late: "(10 :: int) < timegm_utc 11000000" by (simp add: timegm_utc_def)
  have "access_token \<lparr>access_token = ''tok-alice'', token_type = ''bearer''\<rparr>
          = jws_sign demo_env \<lparr>sub = Some (uc_username \<lparr>uc_username = ''alice'', uc_password = ''wonderland''\<rparr>),
                               exp = Some (timegm_utc 0 + 7 * 24 * 60 * 60)\<rparr>
              (SECRET_KEY demo_env) ALGORITHM"
    using token_expiry [THEN conjunct2, THEN conjunct1, rule_format, OF demo_login_alice] .
  then have issued: "''tok-alice'' = jws_sign demo_env \<lparr>sub = Some ''alice'', exp = Some 604800\<rparr>
                     (SECRET_KEY demo_env) ALGORITHM"
    by (simp add: timegm_utc_def)
  have "rejected_everywhere demo_env 11000000 demo_tx 1 (Some ''Bearer tok-old'') demo_db credentials_exception"
    using token_expiry [THEN conjunct2, THEN conjunct2, rule_format,
        where h = "Some ''Bearer tok-old''" and s = "''Bearer tok-old''" and scheme = "''Bearer''"
          and token = "''tok-old''" and E = demo_env
          and c = "\<lparr>sub = Some ''alice'', exp = Some 10\<rparr>" and e = 10 and now = 11000000
          and d = demo_db and tx = demo_tx and tx_id = 1]
      demo_split_old demo_lower_bearer demo_verify_old late
    by simp
  then have "get_transactions_protected demo_env 11000000 (Some ''Bearer tok-old'') demo_db
     = (Inl \<lparr>status_code = 401, detail = ''Could not validate credentials''\<rparr>, demo_db) \<and>
   delete_transaction_protected demo_env 11000000 1 (Some ''Bearer tok-old'') demo_db
     = (Inl \<lparr>status_code = 401, detail = ''Could not validate credentials''\<rparr>, demo_db)"
    by (simp add: rejected_everywhere_def credentials_exception_def)
  with demo_login_alice issued demo_verify_old late show ?thesis by simp
qed

subsection \<open>Failed logins\<close>

lemma login_unknown_user:
  assumes "find (\<lambda>x. u_username x = uc_username p) (users d) = None"
  shows "login E t p d = (Inl \<lparr>status_code = 401, detail = ''Invalid credentials''\<rparr>, d)"
  using assms by (simp add: login_def)

lemma login_wrong_password:
  assumes "find (\<lambda>x. u_username x = uc_username p) (users d) = Some u"
    and "pwd_verify E (uc_password p) (u_hashed_password u) = Some False"
  shows "login E t p d = (Inl \<lparr>status_code = 401, detail = ''Invalid credentials''\<rparr>, d)"
  using assms by (simp add: login_def verify_password_def)

lemma login_verify_raises:
  assumes "find (\<lambda>x. u_username x = uc_username p) (users d) = Some u"
    and "pwd_verify E (uc_password p) (u_hashed_password u) = None"
  shows "login E t p d = (Inl internal_server_error, d)"
  using assms by (simp add: login_def verify_password_def)

text \<open>
  C8. The two failures are not always told alike. \<open>login\<close> asks the password library only
  about a username the users table holds, and catches nothing it raises. For the password
  \<open>a\<close> followed by a NUL byte, which the library refuses to check, the unknown username
  \<open>mallory\<close> gets 401 \<open>Invalid credentials\<close> and the known username \<open>alice\<close> gets 500; for the
  wrong password \<open>wonder\<close> both get the same 401.
\<close>

theorem failed_logins_distinguishable:
  "find (\<lambda>x. u_username x = ''mallory'') (users demo_db) = None \<and>
   find (\<lambda>x. u_username x = ''alice'') (users demo_db)
     = Some \<lparr>u_id = 1, u_username = ''alice'', u_hashed_password = ''s1$wonderland''\<rparr> \<and>
   pwd_verify demo_env [CHR ''a'', CHR 0x00] ''s1$wonderland'' = None \<and>
   login demo_env 0 \<lparr>uc_username = ''mallory'', uc_password = [CHR ''a'', CHR 0x00]\<rparr> demo_db
     = (Inl \<lparr>status_code = 401, detail = ''Invalid credentials''\<rparr>, demo_db) \<and>
   login demo_env 0 \<lparr>uc_username = ''alice'', uc_password = [CHR ''a'', CHR 0x00]\<rparr> demo_db
     = (Inl \<lparr>status_code = 500, detail = ''Internal Server Error''\<rparr>, demo_db) \<and>
   pwd_verify demo_env ''wonder'' ''s1$wonderland'' = Some False \<and>
   login demo_env 0 \<lparr>uc_username = ''mallory'', uc_password = ''wonder''\<rparr> demo_db
     = (Inl \<lparr>status_code = 401, detail = ''Invalid credentials''\<rparr>, demo_db) \<and>
   login demo_env 0 \<lparr>uc_username = ''alice'', uc_password = ''wonder''\<rparr> demo_db
     = (Inl \<lparr>status_code = 401, detail = ''Invalid credentials''\<rparr>, demo_db)"
proof -
  have nobody: "find (\<lambda>x. u_username x = ''mallory'') (users demo_db) = None"
    and alice: "find (\<lambda>x. u_username x = ''alice'') (users demo_db)
     = Some \<lparr>u_id = 1, u_username = ''alice'', u_hashed_password = ''s1$wonderland''\<rparr>"
    by (simp_all add: demo_db_def)
  have raises: "pwd_verify demo_env [CHR ''a'', CHR 0x00] ''s1$wonderland'' = None"
    and wrong: "pwd_verify demo_env ''wonder'' ''s1$wonderland'' = Some False"
    by (simp_all add: demo_env_def)
  have "login demo_env 0 \<lparr>uc_username = ''mallory'', uc_password = pw\<rparr> demo_db
     = (Inl \<lparr>status_code = 401, detail = ''Invalid credentials''\<rparr>, demo_db)" for pw
    using nobody by (simp add: login_unknown_user)
  moreover have "login demo_env 0 \<lparr>uc_username = ''alice'', uc_password = [CHR ''a'', CHR 0x00]\<rparr> demo_db
     = (Inl \<lparr>status_code = 500, detail = ''Internal Server Error''\<rparr>, demo_db)"
    using alice raises login_verify_raises [of "\<lparr>uc_username = ''alice'', uc_password = [CHR ''a'', CHR 0x00]\<rparr>"
        demo_db _ demo_env 0]
    by (simp add: internal_server_error_def)
  moreover have "login demo_env 0 \<lparr>uc_username = ''alice'', uc_password = ''wonder''\<rparr> demo_db
     = (Inl \<lparr>status_code = 401, detail = ''Invalid credentials''\<rparr>, demo_db)"
    using alice wrong login_wrong_password [of "\<lparr>uc_username = ''alice'', uc_password = ''wonder''\<rparr>"
        demo_db _ demo_env 0]
    by simp
  ultimately show ?thesis using nobody alice raises wrong by simp
qed

subsection \<open>Register, log in, present the token\<close>

lemma served_asI:
  assumes "require_user_from_header E now h d = Inr u"
  shows "served_as E now tx tx_id h d u"
  using assms
  by (simp add: served_as_def is_401_def add_transaction_protected_def Let_def
      get_transactions_protected_def delete_transaction_protected_def summary_protected_def
      export_csv_protected_def internal_server_error_def split: option.splits prod.splits)

lemma register_InrD:
  assumes "register E salt p d0 = (Inr r, d1)"
  shows "find (\<lambda>x. u_username x = uc_username p) (users d0) = None \<and>
         (\<exists>hashed. pwd_hash E (uc_password p) salt = Some hashed \<and>
            d1 = d0\<lparr>users := users d0 @ [\<lparr>u_id = rr_id r, u_username = uc_username p,
                                           u_hashed_password = hashed\<rparr>]\<rparr>) \<and>
         rr_username r = uc_username p \<and> rr_id r = next_id (map u_id (users d0))"
  using assms
  by (auto simp: register_def Let_def get_password_hash_def split: option.splits)

lemma one_word_bearer:
  assumes "py_split tok = [tok]"
  shows "py_split (''Bearer '' @ tok) = [''Bearer'', tok]"
  using assms demo_split_bearer [of tok] by simp

text \<open>
  C5, as amended. Let registration of a non-empty username succeed. Then a login with the
  same username and password succeeds and returns the bearer token signed for that name with
  the seven-day expiry. If the password library accepts the password against the hash it
  made (\<open>pwd_verify\<close> of that hash returns \<open>True\<close>), and the token library gives back the claims it signed and issues a token that is
  one word, then for as long as the clock has not passed the expiry the header
  \<open>Bearer <token>\<close> is admitted as the registered user on every protected route, on any store
  whose users table is the one registration left.
\<close>

theorem register_login_roundtrip:
  assumes reg: "register E salt \<lparr>uc_username = name, uc_password = pw\<rparr> d0 = (Inr r, d1)"
    and nonempty: "name \<noteq> []"
    and pwd: "Option.bind (pwd_hash E pw salt) (pwd_verify E pw) = Some True"
    and tok: "tok = jws_sign E \<lparr>sub = Some name, exp = Some (timegm_utc t1 + 7 * 24 * 60 * 60)\<rparr>
                      (SECRET_KEY E) ALGORITHM"
    and verify: "jws_verify E tok (SECRET_KEY E) [ALGORITHM]
                   = Some \<lparr>sub = Some name, exp = Some (timegm_utc t1 + 7 * 24 * 60 * 60)\<rparr>"
    and word: "py_split tok = [tok]"
    and time: "timegm_utc t2 \<le> timegm_utc t1 + 7 * 24 * 60 * 60"
    and same_users: "users d2 = users d1"
  shows "login E t1 \<lparr>uc_username = name, uc_password = pw\<rparr> d1
           = (Inr \<lparr>access_token = tok, token_type = ''bearer''\<rparr>, d1) \<and>
         (\<exists>u. served_as E t2 tx tx_id (Some (''Bearer '' @ tok)) d2 u \<and>
              u_id u = rr_id r \<and> u_username u = name)"
proof -
  from register_InrD [OF reg] obtain hashed
    where fresh: "find (\<lambda>x. u_username x = name) (users d0) = None"
      and hashed: "pwd_hash E pw salt = Some hashed"
      and d1: "users d1 = users d0 @ [\<lparr>u_id = rr_id r, u_username = name,
                                         u_hashed_password = hashed\<rparr>]"
    by auto
  let ?u = "\<lparr>u_id = rr_id r, u_username = name, u_hashed_password = hashed\<rparr>"
  from pwd hashed have accepted: "pwd_verify E pw hashed = Some True" by simp
  have found: "find (\<lambda>x. u_username x = name) (users d1) = Some ?u"
    by (simp add: d1 find_None_append [OF fresh])
  have "create_access_token E t1 \<lparr>sub = Some name, exp = None\<rparr> None = tok"
    by (simp add: create_access_token_def Let_def seven_days tok)
  with found accepted have login: "login E t1 \<lparr>uc_username = name, uc_password = pw\<rparr> d1
           = (Inr \<lparr>access_token = tok, token_type = ''bearer''\<rparr>, d1)"
    by (simp add: login_def verify_password_def Let_def)
  from verify time
  have "jwt_decode E t2 tok (SECRET_KEY E) [ALGORITHM]
          = Inr \<lparr>sub = Some name, exp = Some (timegm_utc t1 + 7 * 24 * 60 * 60)\<rparr>"
    by (simp add: jwt_decode_def)
  with nonempty found same_users
  have "get_current_user_from_token E t2 tok d2 = Inr ?u"
    by (simp add: get_current_user_from_token_def)
  then have "require_user_from_header E t2 (Some (''Bearer '' @ tok)) d2 = Inr ?u"
    using bearer_header [OF one_word_bearer [OF word] demo_lower_bearer, of E t2 d2] by simp
  then have "served_as E t2 tx tx_id (Some (''Bearer '' @ tok)) d2 ?u"
    by (rule served_asI)
  with login show ?thesis by (intro conjI exI [of _ ?u]) simp_all
qed

lemma demo_register_carol:
  "register demo_env ''s3'' \<lparr>uc_username = ''carol'', uc_password = ''pw''\<rparr> demo_db
     = (Inr \<lparr>rr_id = 3, rr_username = ''carol''\<rparr>, demo_db_carol)"
  by (simp add: register_def demo_db_def demo_db_carol_def next_id_def get_password_hash_def
      demo_env_def)

lemma demo_sign_carol:
  "jws_sign demo_env \<lparr>sub = Some ''carol'', exp = Some (timegm_utc 60000000 + 7 * 24 * 60 * 60)\<rparr>
     (SECRET_KEY demo_env) ALGORITHM = ''tok-carol''"
  by (simp add: demo_env_def demo_tokens_def timegm_utc_def)

lemma demo_verify_carol:
  "jws_verify demo_env ''tok-carol'' (SECRET_KEY demo_env) [ALGORITHM]
     = Some \<lparr>sub = Some ''carol'', exp = Some (timegm_utc 60000000 + 7 * 24 * 60 * 60)\<rparr>"
  by (simp add: demo_env_def demo_tokens_def ALGORITHM_def timegm_utc_def)

theorem register_login_roundtrip_witness:
  "register demo_env ''s3'' \<lparr>uc_username = ''carol'', uc_password = ''pw''\<rparr> demo_db
     = (Inr \<lparr>rr_id = 3, rr_username = ''carol''\<rparr>, demo_db_carol) \<and>
   Option.bind (pwd_hash demo_env ''pw'' ''s3'') (pwd_verify demo_env ''pw'') = Some True \<and>
   jws_verify demo_env ''tok-carol'' (SECRET_KEY demo_env) [ALGORITHM]
     = Some \<lparr>sub = Some ''carol'', exp = Some 604860\<rparr> \<and>
   py_split ''tok-carol'' = [''tok-carol''] \<and>
   timegm_utc 604860999999 \<le> timegm_utc 60000000 + 7 * 24 * 60 * 60 \<and>
   login demo_env 60000000 \<lparr>uc_username = ''carol'', uc_password = ''pw''\<rparr> demo_db_carol
     = (Inr \<lparr>access_token = ''tok-carol'', token_type = ''bearer''\<rparr>, demo_db_carol) \<and>
   require_user_from_header demo_env 604860999999 (Some ''Bearer tok-carol'') demo_db_carol
     = Inr \<lparr>u_id = 3, u_username = ''carol'', u_hashed_password = ''s3$pw''\<rparr> \<and>
   \<not> is_401 (fst (add_transaction_protected demo_env 604860999999 demo_tx
                      (Some ''Bearer tok-carol'') demo_db_carol)) \<and>
   \<not> is_401 (fst (get_transactions_protected demo_env 604860999999
                      (Some ''Bearer tok-carol'') demo_db_carol)) \<and>
   \<not> is_401 (fst (delete_transaction_protected demo_env 604860999999 1
                      (Some ''Bearer tok-carol'') demo_db_carol)) \<and>
   \<not> is_401 (fst (summary_protected demo_env 604860999999
                      (Some ''Bearer tok-carol'') demo_db_carol)) \<and>
   \<not> is_401 (fst (export_csv_protected demo_env 604860999999
                      (Some ''Bearer tok-carol'') demo_db_carol))"
proof -
  have pwd: "Option.bind (pwd_hash demo_env ''pw'' ''s3'') (pwd_verify demo_env ''pw'') = Some True"
    by (simp add: demo_env_def)
  have word: "py_split ''tok-carol'' = [''tok-carol'']"
    by (simp add: py_split_def py_isspace_def)
  have time: "timegm_utc 604860999999 \<le> timegm_utc 60000000 + 7 * 24 * 60 * 60"
    by (simp add: timegm_utc_def)
  have v: "jws_verify demo_env ''tok-carol'' (SECRET_KEY demo_env) [ALGORITHM]
     = Some \<lparr>sub = Some ''carol'', exp = Some 604860\<rparr>"
    using demo_verify_carol by (simp add: timegm_utc_def)
  from register_login_roundtrip [OF demo_register_carol _ pwd demo_sign_carol [symmetric]
      demo_verify_carol word time refl, of demo_tx 1]
  obtain u where login: "login demo_env 60000000 \<lparr>uc_username = ''carol'', uc_password = ''pw''\<rparr>
        demo_db_carol
     = (Inr \<lparr>access_token = ''tok-carol'', token_type = ''bearer''\<rparr>, demo_db_carol)"
    and served: "served_as demo_env 604860999999 demo_tx 1 (Some ''Bearer tok-carol'') demo_db_carol u"
    and u: "u_id u = 3" "u_username u = ''carol''"
    by auto
  from served have adm: "require_user_from_header demo_env 604860999999 (Some ''Bearer tok-carol'')
      demo_db_carol = Inr u"
    by (simp add: served_as_def)
  then have "u \<in> set (users demo_db_carol)"
    by (blast dest: require_user_InrD find_user_props)
  with u have "u = \<lparr>u_id = 3, u_username = ''carol'', u_hashed_password = ''s3$pw''\<rparr>"
    by (auto simp: demo_db_carol_def demo_db_def)
  with served demo_register_carol pwd v word time login show ?thesis
    by (simp add: served_as_def)
qed

lemma demo_split_anon: "py_split ''Bearer tok-anon'' = [''Bearer'', ''tok-anon'']"
  by (simp add: py_split_def py_isspace_def)

theorem empty_username_counterexample:
  "register demo_env ''s3'' \<lparr>uc_username = [], uc_password = ''pw''\<rparr> demo_db
     = (Inr \<lparr>rr_id = 3, rr_username = []\<rparr>, demo_db_anon) \<and>
   login demo_env 0 \<lparr>uc_username = [], uc_password = ''pw''\<rparr> demo_db_anon
     = (Inr \<lparr>access_token = ''tok-anon'', token_type = ''bearer''\<rparr>, demo_db_anon) \<and>
   jws_verify demo_env ''tok-anon'' (SECRET_KEY demo_env) [ALGORITHM]
     = Some \<lparr>sub = Some [], exp = Some 604800\<rparr> \<and>
   require_user_from_header demo_env 0 (Some ''Bearer tok-anon'') demo_db_anon
     = Inl \<lparr>status_code = 401, detail = ''Could not validate credentials''\<rparr> \<and>
   is_401 (fst (summary_protected demo_env 0 (Some ''Bearer tok-anon'') demo_db_anon))"
proof -
  have reg: "register demo_env ''s3'' \<lparr>uc_username = [], uc_password = ''pw''\<rparr> demo_db
     = (Inr \<lparr>rr_id = 3, rr_username = []\<rparr>, demo_db_anon)"
    by (simp add: register_def demo_db_def demo_db_anon_def next_id_def get_password_hash_def
        demo_env_def)
  have login: "login demo_env 0 \<lparr>uc_username = [], uc_password = ''pw''\<rparr> demo_db_anon
     = (Inr \<lparr>access_token = ''tok-anon'', token_type = ''bearer''\<rparr>, demo_db_anon)"
    by (simp add: login_def demo_db_anon_def demo_db_def verify_password_def
        create_access_token_def Let_def demo_env_def demo_tokens_def timegm_utc_def
        timedelta_def ACCESS_TOKEN_EXPIRE_MINUTES_def)
  have v: "jws_verify demo_env ''tok-anon'' (SECRET_KEY demo_env) [ALGORITHM]
     = Some \<lparr>sub = Some [], exp = Some 604800\<rparr>"
    by (simp add: demo_env_def demo_tokens_def ALGORITHM_def)
  then have "jwt_decode demo_env 0 ''tok-anon'' (SECRET_KEY demo_env) [ALGORITHM]
     = Inr \<lparr>sub = Some [], exp = Some 604800\<rparr>"
    by (simp add: jwt_decode_def timegm_utc_def)
  then have rej: "require_user_from_header demo_env 0 (Some ''Bearer tok-anon'') demo_db_anon
     = Inl \<lparr>status_code = 401, detail = ''Could not validate credentials''\<rparr>"
    by (simp add: bearer_header [OF demo_split_anon demo_lower_bearer]
        get_current_user_from_token_def credentials_exception_def)
  then have "is_401 (fst (summary_protected demo_env 0 (Some ''Bearer tok-anon'') demo_db_anon))"
    by (simp add: summary_protected_def is_401_def)
  with reg login v rej show ?thesis by simp
qed

subsection \<open>Shared lemmas: what an admitted request gets\<close>

lemma replace_tzinfo_fields:
  "replace_tzinfo dt tz = \<lparr>wall = wall dt, tzinfo = Some tz\<rparr>"
  by (cases dt) (simp add: replace_tzinfo_def)

lemma demo_str_2: "py_str_int 2 = ''2''"
  by code_simp

lemma add_admitted:
  assumes "require_user_from_header E now h d = Inr u"
  shows "add_transaction_protected E now tx h d =
           (case store_float E (tc_amount tx) of
              None \<Rightarrow> (Inl internal_server_error, d)
            | Some a \<Rightarrow>
                (let row = \<lparr>t_id = next_id (map t_id (transactions d)), t_title = tc_title tx,
                             t_amount = a, t_type = tc_type tx, t_category = tc_category tx,
                             t_date = \<lparr>wall = (case tc_date tx of
                                                  None \<Rightarrow> now + IST | Some dt \<Rightarrow> wall dt),
                                       tzinfo = None\<rparr>,
                             t_owner_id = u_id u\<rparr>
                 in (Inr (to_response row), d\<lparr>transactions := transactions d @ [row]\<rparr>)))"
  using assms
  by (cases "tc_date tx"; cases "store_float E (tc_amount tx)")
     (simp_all add: add_transaction_protected_def add_commit_refresh_def Let_def datetime_now_def
        replace_tzinfo_fields sqlite_datetime_def)


lemma delete_out_of_range:
  assumes "require_user_from_header E now h d = Inr u" and "\<not> sqlite_integer i"
  shows "delete_transaction_protected E now i h d = (Inl internal_server_error, d)"
  using assms by (simp add: delete_transaction_protected_def)

lemma delete_not_owned:
  assumes "require_user_from_header E now h d = Inr u" and "sqlite_integer i"
    and "\<not> (\<exists>t \<in> set (transactions d). t_id t = i \<and> t_owner_id t = u_id u)"
  shows "delete_transaction_protected E now i h d
           = (Inl \<lparr>status_code = 404, detail = ''Transaction not found''\<rparr>, d)"
proof -
  from assms(3) have "find (\<lambda>t. t_id t = i \<and> t_owner_id t = u_id u) (transactions d) = None"
    by (auto simp: find_None_iff)
  with assms(1,2) show ?thesis by (simp add: delete_transaction_protected_def)
qed

lemma delete_owned:
  assumes "require_user_from_header E now h d = Inr u" and "sqlite_integer i"
    and "\<exists>t \<in> set (transactions d). t_id t = i \<and> t_owner_id t = u_id u"
  shows "delete_transaction_protected E now i h d
           = (Inr \<lparr>dr_status = ''success'',
                   dr_message = ''Transaction '' @ py_str_int i @ '' deleted''\<rparr>,
              d\<lparr>transactions := filter (\<lambda>t. t_id t \<noteq> i) (transactions d)\<rparr>)"
proof -
  from assms(3) obtain tx
    where "find (\<lambda>t. t_id t = i \<and> t_owner_id t = u_id u) (transactions d) = Some tx"
    by (cases "find (\<lambda>t. t_id t = i \<and> t_owner_id t = u_id u) (transactions d)")
       (auto simp: find_None_iff)
  moreover from this have "t_id tx = i" by (auto simp: find_Some_iff)
  ultimately show ?thesis using assms(1,2) by (simp add: delete_transaction_protected_def)
qed

lemma delete_in_range:
  assumes "require_user_from_header E now h d = Inr u" and "sqlite_integer i"
  shows "delete_transaction_protected E now i h d =
           (if \<exists>t \<in> set (transactions d). t_id t = i \<and> t_owner_id t = u_id u
            then (Inr \<lparr>dr_status = ''success'',
                       dr_message = ''Transaction '' @ py_str_int i @ '' deleted''\<rparr>,
                  d\<lparr>transactions := filter (\<lambda>t. t_id t \<noteq> i) (transactions d)\<rparr>)
            else (Inl \<lparr>status_code = 404, detail = ''Transaction not found''\<rparr>, d))"
proof (cases "\<exists>t \<in> set (transactions d). t_id t = i \<and> t_owner_id t = u_id u")
  case True
  with delete_owned [OF assms True] show ?thesis by simp
next
  case False
  with delete_not_owned [OF assms False] show ?thesis by simp
qed

subsection \<open>Summary\<close>

text \<open>
  C1. For the user a request is admitted as, \<open>summary_protected\<close> returns as total income
  Python's \<open>round(_, 2)\<close> of the \<open>sum\<close> of the amounts of that user's rows of type
  \<open>income\<close>, as total expense the same over the rows of type \<open>expense\<close>, and as net balance
  the difference of the two rounded totals, rounded to two places again. Python's \<open>sum\<close>,
  \<open>round\<close> and float subtraction are the environment's; the store is left as it was.
\<close>

theorem summary_totals:
  assumes "require_user_from_header E now h d = Inr u"
  shows "summary_protected E now h d =
           (let income = py_round E (py_sum E (amounts_of d (u_id u) ''income'')) 2;
                expense = py_round E (py_sum E (amounts_of d (u_id u) ''expense'')) 2
            in (Inr \<lparr>total_income = income, total_expense = expense,
                     net_balance = py_round E (py_sub E income expense) 2\<rparr>, d))"
  using assms
  by (simp add: summary_protected_def amounts_of_def Let_def conj_commute)

theorem summary_totals_witness:
  "require_user_from_header demo_env 0 (Some ''Bearer tok-alice'') demo_db
     = Inr \<lparr>u_id = 1, u_username = ''alice'', u_hashed_password = ''s1$wonderland''\<rparr> \<and>
   amounts_of demo_db 1 ''income'' = [100, 5] \<and> amounts_of demo_db 1 ''expense'' = [30] \<and>
   summary_protected demo_env 0 (Some ''Bearer tok-alice'') demo_db
     = (Inr \<lparr>total_income = 105, total_expense = 30, net_balance = 75\<rparr>, demo_db)"
proof -
  have inc: "amounts_of demo_db 1 ''income'' = [100, 5]"
    and ex: "amounts_of demo_db 1 ''expense'' = [30]"
    by (simp_all add: amounts_of_def demo_db_def)
  from summary_totals [OF demo_auth_alice]
  have "summary_protected demo_env 0 (Some ''Bearer tok-alice'') demo_db
     = (Inr \<lparr>total_income = 105, total_expense = 30, net_balance = 75\<rparr>, demo_db)"
    by (simp add: inc ex Let_def) (simp add: demo_env_def)
  with demo_auth_alice inc ex show ?thesis by simp
qed

subsection \<open>Delete\<close>

text \<open>
  C2. The delete does not answer 404 for every id the user does not own. The handler
  passes the path parameter, any Python integer, to the query, and the store binds signed
  64-bit integers only: for the id \<open>2 ^ 63\<close>, which no row carries, the admitted user
  \<open>alice\<close> gets 500 where the id 99, which no row carries either, gets 404, and the id 2,
  which she owns, is deleted. Within the 64-bit range the claim holds (\<open>delete_in_range\<close>).
\<close>

theorem delete_out_of_range_answers_500:
  "sqlite_integer 99 \<and> \<not> sqlite_integer 9223372036854775808 \<and>
   find (\<lambda>t. t_id t = 99) (transactions demo_db) = None \<and>
   find (\<lambda>t. t_id t = 9223372036854775808) (transactions demo_db) = None \<and>
   delete_transaction_protected demo_env 0 99 (Some ''Bearer tok-alice'') demo_db
     = (Inl \<lparr>status_code = 404, detail = ''Transaction not found''\<rparr>, demo_db) \<and>
   delete_transaction_protected demo_env 0 9223372036854775808 (Some ''Bearer tok-alice'') demo_db
     = (Inl \<lparr>status_code = 500, detail = ''Internal Server Error''\<rparr>, demo_db) \<and>
   fst (delete_transaction_protected demo_env 0 2 (Some ''Bearer tok-alice'') demo_db)
     = Inr \<lparr>dr_status = ''success'', dr_message = ''Transaction 2 deleted''\<rparr> \<and>
   map t_id (transactions (snd (delete_transaction_protected demo_env 0 2
                                  (Some ''Bearer tok-alice'') demo_db))) = [1, 3, 4]"
proof -
  have small: "sqlite_integer 99" "sqlite_integer 2"
    and big: "\<not> sqlite_integer 9223372036854775808"
    by (simp_all add: sqlite_integer_def)
  have absent: "find (\<lambda>t. t_id t = 99) (transactions demo_db) = None"
      "find (\<lambda>t. t_id t = 9223372036854775808) (transactions demo_db) = None"
    by (simp_all add: demo_db_def)
  have none: "delete_transaction_protected demo_env 0 99 (Some ''Bearer tok-alice'') demo_db
     = (Inl \<lparr>status_code = 404, detail = ''Transaction not found''\<rparr>, demo_db)"
    by (simp add: delete_in_range [OF demo_auth_alice small(1)]) (simp add: demo_db_def)
  have crash: "delete_transaction_protected demo_env 0 9223372036854775808
       (Some ''Bearer tok-alice'') demo_db
     = (Inl \<lparr>status_code = 500, detail = ''Internal Server Error''\<rparr>, demo_db)"
    by (simp add: delete_out_of_range [OF demo_auth_alice big] internal_server_error_def)
  have own: "delete_transaction_protected demo_env 0 2 (Some ''Bearer tok-alice'') demo_db
     = (Inr \<lparr>dr_status = ''success'', dr_message = ''Transaction 2 deleted''\<rparr>,
        demo_db\<lparr>transactions := filter (\<lambda>t. t_id t \<noteq> 2) (transactions demo_db)\<rparr>)"
    by (simp add: delete_in_range [OF demo_auth_alice small(2)]) (simp add: demo_db_def demo_str_2)
  have ids: "map t_id (filter (\<lambda>t. t_id t \<noteq> 2) (transactions demo_db)) = [1, 3, 4]"
    by (simp add: demo_db_def)
  from small big absent none crash own ids show ?thesis by simp
qed

subsection \<open>List and export\<close>






subsection \<open>Adding a transaction\<close>

lemma IST_value: "IST = (5 * 60 + 30) * 60 * 1000000"
  by (simp add: IST_def timezone_def timedelta_def)

text \<open>
  C4. The offset the handler attaches does not reach the store. For the request dated
  2024-01-01T10:00:00 with no offset, the handler builds the date 2024-01-01T10:00:00 tagged
  with five and a half hours east of UTC, but the row it returns after commit and refresh,
  and the row the table holds, carry the naive date 2024-01-01T10:00:00. For the request
  with no date and the clock at 0, the handler builds the reading 05:30:00 tagged with the
  offset, and the row carries the naive reading 05:30:00.
\<close>

theorem add_transaction_offset_lost:
  "tc_date demo_tx_dated = Some \<lparr>wall = 1704103200000000, tzinfo = None\<rparr> \<and>
   replace_tzinfo \<lparr>wall = 1704103200000000, tzinfo = None\<rparr> IST
     = \<lparr>wall = 1704103200000000, tzinfo = Some 19800000000\<rparr> \<and>
   tr_date (projr (fst (add_transaction_protected demo_env 0 demo_tx_dated
        (Some ''Bearer tok-alice'') demo_db)))
     = \<lparr>wall = 1704103200000000, tzinfo = None\<rparr> \<and>
   map t_date (transactions (snd (add_transaction_protected demo_env 0 demo_tx_dated
        (Some ''Bearer tok-alice'') demo_db)))
     = map t_date (transactions demo_db) @ [\<lparr>wall = 1704103200000000, tzinfo = None\<rparr>] \<and>
   tc_date demo_tx = None \<and>
   datetime_now 0 IST = \<lparr>wall = 19800000000, tzinfo = Some 19800000000\<rparr> \<and>
   tr_date (projr (fst (add_transaction_protected demo_env 0 demo_tx
        (Some ''Bearer tok-alice'') demo_db)))
     = \<lparr>wall = 19800000000, tzinfo = None\<rparr>"
proof -
  have dated: "tc_date demo_tx_dated = Some \<lparr>wall = 1704103200000000, tzinfo = None\<rparr>"
    and nodate: "tc_date demo_tx = None"
    by (simp_all add: demo_tx_dated_def demo_tx_def)
  have kept: "store_float demo_env x = Some x" for x
    by (simp add: demo_env_def)
  have tagged: "replace_tzinfo \<lparr>wall = 1704103200000000, tzinfo = None\<rparr> IST
     = \<lparr>wall = 1704103200000000, tzinfo = Some 19800000000\<rparr>"
    and clock: "datetime_now 0 IST = \<lparr>wall = 19800000000, tzinfo = Some 19800000000\<rparr>"
    by (simp_all add: replace_tzinfo_fields datetime_now_def IST_value)
  have a: "tr_date (projr (fst (add_transaction_protected demo_env 0 demo_tx_dated
        (Some ''Bearer tok-alice'') demo_db)))
     = \<lparr>wall = 1704103200000000, tzinfo = None\<rparr>"
    and b: "map t_date (transactions (snd (add_transaction_protected demo_env 0 demo_tx_dated
        (Some ''Bearer tok-alice'') demo_db)))
     = map t_date (transactions demo_db) @ [\<lparr>wall = 1704103200000000, tzinfo = None\<rparr>]"
    by (simp_all add: add_admitted [OF demo_auth_alice] kept dated Let_def to_response_def)
  have c: "tr_date (projr (fst (add_transaction_protected demo_env 0 demo_tx
        (Some ''Bearer tok-alice'') demo_db)))
     = \<lparr>wall = 19800000000, tzinfo = None\<rparr>"
    by (simp add: add_admitted [OF demo_auth_alice] kept nodate Let_def to_response_def IST_value)
  from dated nodate tagged clock a b c show ?thesis by simp
qed

text \<open>
  C9, as amended. The schema types the amount as a float and the route checks nothing
  about it. For an admitted request, the row appended to the table and the response both
  carry the amount the store's float column gives back for the amount of the request,
  whatever its sign; where the column refuses the amount, the request is answered 500 and
  no row is created.
\<close>

theorem add_transaction_amount:
  assumes "require_user_from_header E now h d = Inr u"
  shows "case store_float E (tc_amount tx) of
           None \<Rightarrow> add_transaction_protected E now tx h d = (Inl internal_server_error, d)
         | Some a \<Rightarrow>
             (\<exists>row. add_transaction_protected E now tx h d
                      = (Inr (to_response row), d\<lparr>transactions := transactions d @ [row]\<rparr>) \<and>
                    t_amount row = a \<and> tr_amount (to_response row) = a)"
proof (cases "store_float E (tc_amount tx)")
  case None
  then show ?thesis using add_admitted [OF assms, of tx] by simp
next
  case (Some a)
  let ?row = "\<lparr>t_id = next_id (map t_id (transactions d)), t_title = tc_title tx,
                t_amount = a, t_type = tc_type tx, t_category = tc_category tx,
                t_date = \<lparr>wall = (case tc_date tx of None \<Rightarrow> now + IST | Some dt \<Rightarrow> wall dt),
                          tzinfo = None\<rparr>,
                t_owner_id = u_id u\<rparr>"
  have "add_transaction_protected E now tx h d
          = (Inr (to_response ?row), d\<lparr>transactions := transactions d @ [?row]\<rparr>)"
    using add_admitted [OF assms, of tx] Some by (simp add: Let_def)
  moreover have "t_amount ?row = a" by simp
  moreover have "tr_amount (to_response ?row) = a" by (simp add: to_response_def)
  ultimately have "\<exists>row. add_transaction_protected E now tx h d
                      = (Inr (to_response row), d\<lparr>transactions := transactions d @ [row]\<rparr>) \<and>
                    t_amount row = a \<and> tr_amount (to_response row) = a"
    by (intro exI [of _ ?row]) blast
  with Some show ?thesis by simp
qed

theorem add_transaction_amount_witness:
  "require_user_from_header demo_env 0 (Some ''Bearer tok-alice'') demo_db
     = Inr \<lparr>u_id = 1, u_username = ''alice'', u_hashed_password = ''s1$wonderland''\<rparr> \<and>
   store_float demo_env (tc_amount demo_tx) = Some 4 \<and>
   tr_amount (projr (fst (add_transaction_protected demo_env 0 demo_tx (Some ''Bearer tok-alice'') demo_db))) = 4 \<and>
   map t_amount (transactions (snd (add_transaction_protected demo_env 0 demo_tx
        (Some ''Bearer tok-alice'') demo_db))) = [100, 30, 7, 5, 4]"
proof -
  have amt: "store_float demo_env (tc_amount demo_tx) = Some 4"
    by (simp add: demo_tx_def demo_env_def)
  have old: "map t_amount (transactions demo_db) = [100, 30, 7, 5]" by (simp add: demo_db_def)
  from add_transaction_amount [OF demo_auth_alice, of demo_tx] amt old
  have "tr_amount (projr (fst (add_transaction_protected demo_env 0 demo_tx (Some ''Bearer tok-alice'') demo_db))) = 4 \<and>
   map t_amount (transactions (snd (add_transaction_protected demo_env 0 demo_tx
        (Some ''Bearer tok-alice'') demo_db))) = [100, 30, 7, 5, 4]"
    by auto
  with demo_auth_alice amt show ?thesis by simp
qed

theorem negative_amount_counterexample:
  "tc_amount demo_tx_negative = - 5 \<and>
   store_float demo_env (- 5) = Some (- 5) \<and>
   require_user_from_header demo_env 0 (Some ''Bearer tok-alice'') demo_db
     = Inr \<lparr>u_id = 1, u_username = ''alice'', u_hashed_password = ''s1$wonderland''\<rparr> \<and>
   add_transaction_protected demo_env 0 demo_tx_negative (Some ''Bearer tok-alice'') demo_db
     = (Inr \<lparr>tr_id = 5, tr_title = ''refund'', tr_amount = - 5, tr_type = ''income'',
             tr_category = None, tr_date = \<lparr>wall = 19800000000, tzinfo = None\<rparr>\<rparr>,
        demo_db\<lparr>transactions := transactions demo_db @
          [\<lparr>t_id = 5, t_title = ''refund'', t_amount = - 5, t_type = ''income'',
            t_category = None, t_date = \<lparr>wall = 19800000000, tzinfo = None\<rparr>,
            t_owner_id = 1\<rparr>]\<rparr>) \<and>
   t_amount (last (transactions (snd (add_transaction_protected demo_env 0 demo_tx_negative
        (Some ''Bearer tok-alice'') demo_db)))) < 0"
proof -
  have amt: "tc_amount demo_tx_negative = - 5" by (simp add: demo_tx_negative_def)
  have kept: "store_float demo_env (- 5) = Some (- 5)" by (simp add: demo_env_def)
  have ids: "next_id (map t_id (transactions demo_db)) = 5"
    by (simp add: demo_db_def next_id_def)
  have "add_transaction_protected demo_env 0 demo_tx_negative (Some ''Bearer tok-alice'') demo_db
     = (Inr \<lparr>tr_id = 5, tr_title = ''refund'', tr_amount = - 5, tr_type = ''income'',
             tr_category = None, tr_date = \<lparr>wall = 19800000000, tzinfo = None\<rparr>\<rparr>,
        demo_db\<lparr>transactions := transactions demo_db @
          [\<lparr>t_id = 5, t_title = ''refund'', t_amount = - 5, t_type = ''income'',
            t_category = None, t_date = \<lparr>wall = 19800000000, tzinfo = None\<rparr>,
            t_owner_id = 1\<rparr>]\<rparr>)"
    by (simp add: add_admitted [OF demo_auth_alice] amt kept Let_def ids to_response_def IST_value)
       (simp add: demo_tx_negative_def IST_value)
  with amt kept demo_auth_alice show ?thesis by simp
qed

section \<open>Further properties of the store\<close>

lemma fold_max_upper: "x \<in> set (i # rest) \<Longrightarrow> x \<le> fold max rest (i :: int)"
proof (induction rest arbitrary: i x)
  case Nil
  then show ?case by simp
next
  case (Cons a rest)
  have top: "max a i \<le> fold max rest (max a i)" by (rule Cons.IH) simp
  show ?case
  proof (cases "x \<in> set rest")
    case True
    then show ?thesis using Cons.IH [of x "max a i"] by simp
  next
    case False
    with Cons.prems have "x \<le> max a i" by auto
    with top have "x \<le> fold max rest (max a i)" by (rule order_trans [rotated])
    then show ?thesis by simp
  qed
qed

lemma next_id_fresh: "next_id ids \<notin> set ids"
proof (cases ids)
  case Nil
  then show ?thesis by simp
next
  case (Cons i rest)
  show ?thesis
  proof
    assume "next_id ids \<in> set ids"
    with Cons have "fold max rest i + 1 \<le> fold max rest i"
      using fold_max_upper [of "next_id ids" i rest] by (simp add: next_id_def)
    then show False by simp
  qed
qed

lemma filter_other_ids:
  "distinct (map f xs) \<Longrightarrow> x \<in> set xs \<Longrightarrow> filter (\<lambda>t. f t \<noteq> f x) xs = remove1 x xs"
proof (induction xs)
  case Nil
  then show ?case by simp
next
  case (Cons a xs)
  show ?case
  proof (cases "a = x")
    case True
    with Cons.prems have "\<forall>t \<in> set xs. f t \<noteq> f x" by (auto simp: image_iff)
    then have "filter (\<lambda>t. f t \<noteq> f x) xs = xs" by (simp add: filter_id_conv)
    with True show ?thesis by simp
  next
    case False
    with Cons.prems have "x \<in> set xs" and "f a \<noteq> f x" by auto
    with Cons False show ?thesis by simp
  qed
qed

text \<open>
  A username can be registered once: after a successful registration, a second one
  under the same username, with any password and salt, raises 400 with the detail
  \<open>Username already exists\<close> and leaves the store as it was.
\<close>

theorem second_registration_rejected:
  assumes "register E salt p d0 = (Inr r, d1)"
  shows "register E salt' \<lparr>uc_username = uc_username p, uc_password = pw'\<rparr> d1
           = (Inl \<lparr>status_code = 400, detail = ''Username already exists''\<rparr>, d1)"
proof -
  from register_InrD [OF assms]
  have "find (\<lambda>x. u_username x = uc_username p) (users d1) \<noteq> None"
    by (auto simp: find_None_iff)
  then show ?thesis by (auto simp: register_def)
qed

theorem second_registration_rejected_witness:
  "register demo_env ''s3'' \<lparr>uc_username = ''carol'', uc_password = ''pw''\<rparr> demo_db
     = (Inr \<lparr>rr_id = 3, rr_username = ''carol''\<rparr>, demo_db_carol) \<and>
   register demo_env ''s4'' \<lparr>uc_username = ''carol'', uc_password = ''other''\<rparr> demo_db_carol
     = (Inl \<lparr>status_code = 400, detail = ''Username already exists''\<rparr>, demo_db_carol)"
  using second_registration_rejected [OF demo_register_carol, of "''s4''" "''other''"]
    demo_register_carol
  by simp

text \<open>
  Usernames stay unique: if no two rows of the users table share a username,
  the same holds of the table any registration, successful or not, leaves behind.
\<close>

theorem register_keeps_usernames_unique:
  assumes "distinct (map u_username (users d))"
  shows "distinct (map u_username (users (snd (register E salt p d))))"
proof (cases "find (\<lambda>x. u_username x = uc_username p) (users d)")
  case None
  then have "uc_username p \<notin> set (map u_username (users d))"
    by (auto simp: find_None_iff)
  with assms None show ?thesis
    by (simp add: register_def Let_def split: option.splits)
next
  case (Some existing)
  with assms show ?thesis by (simp add: register_def)
qed

theorem register_keeps_usernames_unique_witness:
  "distinct (map u_username (users demo_db)) \<and>
   map u_username (users (snd (register demo_env ''s3''
        \<lparr>uc_username = ''carol'', uc_password = ''pw''\<rparr> demo_db))) = [''alice'', ''bob'', ''carol''] \<and>
   distinct (map u_username (users (snd (register demo_env ''s3''
        \<lparr>uc_username = ''carol'', uc_password = ''pw''\<rparr> demo_db))))"
proof -
  have d: "distinct (map u_username (users demo_db))" by (simp add: demo_db_def)
  have "map u_username (users (snd (register demo_env ''s3''
        \<lparr>uc_username = ''carol'', uc_password = ''pw''\<rparr> demo_db))) = [''alice'', ''bob'', ''carol'']"
    by (simp add: demo_register_carol) (simp add: demo_db_carol_def demo_db_def)
  with d register_keeps_usernames_unique [OF d, of demo_env "''s3''"
      "\<lparr>uc_username = ''carol'', uc_password = ''pw''\<rparr>"]
  show ?thesis by simp
qed

text \<open>
  Transaction ids stay unique, and a delete removes one row: if no two rows of the
  transactions table share an id, the same holds after any add and any delete, and a
  successful delete leaves the table without exactly the one row of that id the user owns.
\<close>

theorem transaction_ids_stay_unique:
  assumes "distinct (map t_id (transactions d))"
  shows "distinct (map t_id (transactions (snd (add_transaction_protected E now tx h d)))) \<and>
         distinct (map t_id (transactions (snd (delete_transaction_protected E now i h d)))) \<and>
         (\<forall>r. fst (delete_transaction_protected E now i h d) = Inr r \<longrightarrow>
            (\<exists>u row. require_user_from_header E now h d = Inr u \<and> row \<in> set (transactions d) \<and>
               t_id row = i \<and> t_owner_id row = u_id u \<and>
               transactions (snd (delete_transaction_protected E now i h d))
                 = remove1 row (transactions d)))"
proof (cases "require_user_from_header E now h d")
  case (Inl e)
  with assms show ?thesis
    by (simp add: add_transaction_protected_def delete_transaction_protected_def)
next
  case (Inr u)
  have "next_id (map t_id (transactions d)) \<notin> set (map t_id (transactions d))"
    by (rule next_id_fresh)
  with assms have add: "distinct (map t_id (transactions (snd (add_transaction_protected E now tx h d))))"
    using add_admitted [OF Inr, of tx] by (simp add: Let_def split: option.splits)
  consider (unbound) "\<not> sqlite_integer i"
    | (absent) "sqlite_integer i"
        "\<not> (\<exists>t \<in> set (transactions d). t_id t = i \<and> t_owner_id t = u_id u)"
    | (owned) "sqlite_integer i"
        "\<exists>t \<in> set (transactions d). t_id t = i \<and> t_owner_id t = u_id u"
    by blast
  then show ?thesis
  proof cases
    case unbound
    with assms add show ?thesis by (simp add: delete_out_of_range [OF Inr unbound])
  next
    case absent
    with assms add show ?thesis by (simp add: delete_not_owned [OF Inr absent])
  next
    case owned
    note True = owned(2)
    then obtain row where row: "row \<in> set (transactions d)" "t_id row = i" "t_owner_id row = u_id u"
      by blast
    from True have del: "transactions (snd (delete_transaction_protected E now i h d))
        = filter (\<lambda>t. t_id t \<noteq> i) (transactions d)"
      by (simp add: delete_owned [OF Inr owned])
    also have "\<dots> = remove1 row (transactions d)"
      using filter_other_ids [OF assms row(1)] row(2) by simp
    finally have gone: "transactions (snd (delete_transaction_protected E now i h d))
        = remove1 row (transactions d)" .
    have "distinct (map t_id (filter (\<lambda>t. t_id t \<noteq> i) (transactions d)))"
      using assms by (rule distinct_map_filter)
    with del have "distinct (map t_id (transactions (snd (delete_transaction_protected E now i h d))))"
      by simp
    with add gone row Inr show ?thesis by blast
  qed
qed

lemma demo_ids_distinct: "distinct (map t_id (transactions demo_db))"
  by (simp add: demo_db_def)

theorem transaction_ids_stay_unique_witness:
  "distinct (map t_id (transactions demo_db)) \<and>
   fst (delete_transaction_protected demo_env 0 2 (Some ''Bearer tok-alice'') demo_db)
     = Inr \<lparr>dr_status = ''success'', dr_message = ''Transaction 2 deleted''\<rparr> \<and>
   distinct (map t_id (transactions (snd (add_transaction_protected demo_env 0 demo_tx
       (Some ''Bearer tok-alice'') demo_db)))) \<and>
   distinct (map t_id (transactions (snd (delete_transaction_protected demo_env 0 2
       (Some ''Bearer tok-alice'') demo_db)))) \<and>
   (\<exists>row. row \<in> set (transactions demo_db) \<and> t_id row = 2 \<and> t_owner_id row = 1 \<and>
      transactions (snd (delete_transaction_protected demo_env 0 2 (Some ''Bearer tok-alice'') demo_db))
        = remove1 row (transactions demo_db))"
proof -
  have ok: "fst (delete_transaction_protected demo_env 0 2 (Some ''Bearer tok-alice'') demo_db)
     = Inr \<lparr>dr_status = ''success'', dr_message = ''Transaction 2 deleted''\<rparr>"
    by (subst delete_owned [OF demo_auth_alice]) (simp_all add: demo_db_def demo_str_2 sqlite_integer_def)
  note inv = transaction_ids_stay_unique [OF demo_ids_distinct, of demo_env 0 demo_tx
      "Some ''Bearer tok-alice''" 2]
  from inv ok obtain u row where
    "require_user_from_header demo_env 0 (Some ''Bearer tok-alice'') demo_db = Inr u"
    "row \<in> set (transactions demo_db)" "t_id row = 2" "t_owner_id row = u_id u"
    "transactions (snd (delete_transaction_protected demo_env 0 2 (Some ''Bearer tok-alice'') demo_db))
        = remove1 row (transactions demo_db)"
    by blast
  then have "\<exists>row. row \<in> set (transactions demo_db) \<and> t_id row = 2 \<and> t_owner_id row = 1 \<and>
      transactions (snd (delete_transaction_protected demo_env 0 2 (Some ''Bearer tok-alice'') demo_db))
        = remove1 row (transactions demo_db)"
    using demo_auth_alice by auto
  with inv ok demo_ids_distinct show ?thesis by blast
qed

end
